theory Spec2Isabelle
  imports Main "HOL-Library.Word"
begin

section \<open>The launcher script \<open>scripts/borg_the_spire_watch_and_communicate.py\<close>\<close>

text \<open>
  The script is straight-line Python: it computes five paths from its own location,
  creates the directory of the copies, copies the built executable into the first copy
  slot and runs that copy, waiting for it. Everything it does goes through four library
  calls (\<open>os.path\<close>, \<open>os.makedirs\<close>, \<open>shutil.copyfile\<close>, \<open>subprocess.run\<close>), which are
  modelled here over an explicit file system. An exception is a value; the script catches
  none, so the first one ends it. The script is written for Windows, where a running
  executable cannot be overwritten; its paths use forward slashes only, and \<open>os.path\<close> is
  modelled in its POSIX flavour.
\<close>

subsection \<open>\<open>os.path\<close> (the POSIX flavour, separator \<open>/\<close>)\<close>

text \<open>
  \<open>p.rfind('/') + 1\<close> cuts \<open>p\<close> after its last separator: the part before the cut is
  \<open>head_raw p\<close>, the part after it \<open>tail_of p\<close>.
\<close>

definition head_raw :: "string \<Rightarrow> string" where
  "head_raw p = rev (dropWhile (\<lambda>c. c \<noteq> CHR ''/'') (rev p))"

definition tail_of :: "string \<Rightarrow> string" where
  "tail_of p = rev (takeWhile (\<lambda>c. c \<noteq> CHR ''/'') (rev p))"

definition rstrip_sep :: "string \<Rightarrow> string" where
  "rstrip_sep h = rev (dropWhile (\<lambda>c. c = CHR ''/'') (rev h))"

text \<open>
  \<^verbatim>\<open>
  def dirname(p):
      i = p.rfind(sep) + 1
      head = p[:i]
      if head and head != sep*len(head):
          head = head.rstrip(sep)
      return head
  \<close>
\<close>

definition os_path_dirname :: "string \<Rightarrow> string" where
  "os_path_dirname p =
     (let head = head_raw p in
      if head \<noteq> [] \<and> head \<noteq> replicate (length head) CHR ''/'' then rstrip_sep head
      else head)"

text \<open>\<open>os.path.split\<close> returns the same head together with the tail.\<close>

definition os_path_split :: "string \<Rightarrow> string \<times> string" where
  "os_path_split p = (os_path_dirname p, tail_of p)"

text \<open>
  \<^verbatim>\<open>
  def join(a, b):
      if b.startswith(sep): path = b
      elif not a or a.endswith(sep): path = a + b
      else: path = a + sep + b
      return path
  \<close>
\<close>

definition os_path_join :: "string \<Rightarrow> string \<Rightarrow> string" where
  "os_path_join a b =
     (if b \<noteq> [] \<and> hd b = CHR ''/'' then b
      else if a = [] \<or> last a = CHR ''/'' then a @ b
      else a @ ''/'' @ b)"

subsection \<open>The file system\<close>

text \<open>
  A path names a directory (with the right to create entries in it) or a regular file
  (read and write permission, content). Paths are compared as strings; the entry \<open>''.''\<close>
  is the current directory, which a relative path without a directory part lives in.
  Every path string is a file of its own: hard links and symbolic links (two paths for one
  file, a link whose target is missing) are not represented. The properties below are
  therefore stated so that they do not rest on their absence: none concludes that a copy
  succeeds, and none concludes from the kind of exception what was missing.
\<close>

type_synonym byte = "8 word"

datatype node = Dir bool | File bool bool "byte list"

type_synonym filesystem = "string \<rightharpoonup> node"

datatype error =
    FileNotFoundError | FileExistsError | IsADirectoryError | NotADirectoryError
  | PermissionError | SameFileError | IndexError

definition parent_node :: "filesystem \<Rightarrow> string \<Rightarrow> node option" where
  "parent_node fs p = (let h = os_path_dirname p in if h = [] then fs ''.'' else fs h)"

definition path_exists :: "filesystem \<Rightarrow> string \<Rightarrow> bool" where
  "path_exists fs p = (fs p \<noteq> None)"

definition path_isdir :: "filesystem \<Rightarrow> string \<Rightarrow> bool" where
  "path_isdir fs p = (case fs p of Some (Dir w) \<Rightarrow> True | _ \<Rightarrow> False)"

definition os_mkdir :: "string \<Rightarrow> filesystem \<Rightarrow> error + filesystem" where
  "os_mkdir name fs =
     (if name = [] then Inl FileNotFoundError
      else if fs name \<noteq> None then Inl FileExistsError
      else case parent_node fs name of
             None \<Rightarrow> Inl FileNotFoundError
           | Some (File r w b) \<Rightarrow> Inl NotADirectoryError
           | Some (Dir w) \<Rightarrow> if w then Inr (fs(name \<mapsto> Dir True)) else Inl PermissionError)"

subsection \<open>\<open>os.makedirs\<close>\<close>

text \<open>
  \<^verbatim>\<open>
  def makedirs(name, mode=0o777, exist_ok=False):
      head, tail = path.split(name)
      if not tail:
          head, tail = path.split(head)
      if head and tail and not path.exists(head):
          try:
              makedirs(head, exist_ok=exist_ok)
          except FileExistsError:
              pass
          if tail == curdir:
              return
      try:
          mkdir(name, mode)
      except OSError:
          if not exist_ok or not path.isdir(name):
              raise
  \<close>
  The result is the file system left behind and the exception raised, if any.
\<close>

definition split_twice :: "string \<Rightarrow> string \<times> string" where
  "split_twice name =
     (let (head, tail) = os_path_split name in
      if tail = [] then os_path_split head else (head, tail))"

definition mkdir_tolerant :: "string \<Rightarrow> bool \<Rightarrow> filesystem \<Rightarrow> filesystem \<times> error option" where
  "mkdir_tolerant name exist_ok fs =
     (case os_mkdir name fs of
        Inr fs' \<Rightarrow> (fs', None)
      | Inl e \<Rightarrow> if \<not> exist_ok \<or> \<not> path_isdir fs name then (fs, Some e) else (fs, None))"

lemma tail_of_length: "length (head_raw p) + length (tail_of p) = length p"
  unfolding head_raw_def tail_of_def
  by (metis length_rev length_append takeWhile_dropWhile_id add.commute)

lemma rstrip_sep_length: "length (rstrip_sep h) \<le> length h"
  unfolding rstrip_sep_def
  using length_dropWhile_le [of "\<lambda>c. c = CHR ''/''" "rev h"] by simp

lemma dirname_length: "length (os_path_dirname p) \<le> length (head_raw p)"
  unfolding os_path_dirname_def by (simp add: Let_def rstrip_sep_length)

lemma dirname_le: "length (os_path_dirname p) \<le> length p"
  using dirname_length [of p] tail_of_length [of p] by simp

lemma split_twice_shorter:
  "snd (split_twice name) \<noteq> [] \<Longrightarrow> length (fst (split_twice name)) < length name"
proof (cases "tail_of name = []")
  case False
  assume "snd (split_twice name) \<noteq> []"
  have "length (tail_of name) > 0" using False by simp
  then have "length (head_raw name) < length name"
    using tail_of_length [of name] by arith
  then show ?thesis
    using False dirname_length [of name]
    by (simp add: split_twice_def os_path_split_def)
next
  case True
  assume nonempty: "snd (split_twice name) \<noteq> []"
  let ?h = "os_path_dirname name"
  from True nonempty have t: "tail_of ?h \<noteq> []"
    by (simp add: split_twice_def os_path_split_def)
  then have "length (tail_of ?h) > 0" by simp
  then have "length (head_raw ?h) < length ?h"
    using tail_of_length [of ?h] by arith
  then have "length (os_path_dirname ?h) < length name"
    using dirname_length [of ?h] dirname_le [of name] by arith
  then show ?thesis
    using True by (simp add: split_twice_def os_path_split_def)
qed

function os_makedirs :: "string \<Rightarrow> bool \<Rightarrow> filesystem \<Rightarrow> filesystem \<times> error option" where
  "os_makedirs name exist_ok fs =
     (if fst (split_twice name) \<noteq> [] \<and> snd (split_twice name) \<noteq> []
         \<and> \<not> path_exists fs (fst (split_twice name))
      then (case os_makedirs (fst (split_twice name)) exist_ok fs of
              (fs1, Some e) \<Rightarrow>
                if e = FileExistsError
                then (if snd (split_twice name) = ''.'' then (fs1, None)
                      else mkdir_tolerant name exist_ok fs1)
                else (fs1, Some e)
            | (fs1, None) \<Rightarrow>
                if snd (split_twice name) = ''.'' then (fs1, None)
                else mkdir_tolerant name exist_ok fs1)
      else mkdir_tolerant name exist_ok fs)"
  by pat_completeness auto
termination
  by (relation "measure (\<lambda>(name, exist_ok, fs). length name)")
     (auto simp: split_twice_shorter)

declare os_makedirs.simps [simp del]

subsection \<open>\<open>shutil.copyfile\<close>\<close>

text \<open>
  \<^verbatim>\<open>
  def copyfile(src, dst):
      if _samefile(src, dst):
          raise SameFileError(...)
      with open(src, 'rb') as fsrc:
          with open(dst, 'wb') as fdst:
              copyfileobj(fsrc, fdst)
      return dst
  \<close>
  Opening the source for reading fails when it is missing, a directory or unreadable.
  Opening the destination for writing truncates an existing writable file (keeping its
  permissions) or creates a new one in a writable directory, and fails otherwise. The
  library's \<open>_samefile\<close> compares the identity of the two files; with every path a file of
  its own this is the comparison of the two strings. A source and a destination that are
  links to one file, or a destination that is a dangling link, make the library raise
  where this model would copy: the model says when a copy fails for want of access and
  what a successful copy leaves behind, not that a copy succeeds.
\<close>

definition open_rb :: "filesystem \<Rightarrow> string \<Rightarrow> error + byte list" where
  "open_rb fs src =
     (case fs src of
        None \<Rightarrow> Inl FileNotFoundError
      | Some (Dir w) \<Rightarrow> Inl IsADirectoryError
      | Some (File r w content) \<Rightarrow> if r then Inr content else Inl PermissionError)"

definition open_wb :: "filesystem \<Rightarrow> string \<Rightarrow> byte list \<Rightarrow> error + filesystem" where
  "open_wb fs dst content =
     (case fs dst of
        Some (Dir w) \<Rightarrow> Inl IsADirectoryError
      | Some (File r w old) \<Rightarrow>
          if w then Inr (fs(dst \<mapsto> File r w content)) else Inl PermissionError
      | None \<Rightarrow>
          (case parent_node fs dst of
             None \<Rightarrow> Inl FileNotFoundError
           | Some (File r w b) \<Rightarrow> Inl NotADirectoryError
           | Some (Dir w) \<Rightarrow>
               if w then Inr (fs(dst \<mapsto> File True True content)) else Inl PermissionError))"

definition shutil_copyfile :: "string \<Rightarrow> string \<Rightarrow> filesystem \<Rightarrow> error + filesystem" where
  "shutil_copyfile src dst fs =
     (if src = dst \<and> path_exists fs src then Inl SameFileError
      else case open_rb fs src of
             Inl e \<Rightarrow> Inl e
           | Inr content \<Rightarrow> open_wb fs dst content)"

subsection \<open>\<open>subprocess.run\<close>\<close>

text \<open>
  What a launched executable does is a parameter of the world: given the bytes of the
  file it is started from, its argument list and the file system, it cannot be started,
  runs for ever, or exits with a return code leaving a file system behind. The operator
  may interrupt the script while it waits (\<open>interrupt\<close>); \<open>subprocess.run\<close> then kills the
  child and re-raises.

  \<^verbatim>\<open>
  def run(*popenargs, check=False, ...):
      with Popen(*popenargs, **kwargs) as process:
          try:
              stdout, stderr = process.communicate(input, timeout=timeout)
          except:  # Including KeyboardInterrupt
              process.kill()
              raise
          retcode = process.poll()
      return CompletedProcess(process.args, retcode, stdout, stderr)
  \<close>
\<close>

datatype child = Cannot_start error | Never_exits | Exits int filesystem

record world =
  files :: filesystem
  program :: "byte list \<Rightarrow> string list \<Rightarrow> filesystem \<Rightarrow> child"
  interrupt :: bool

datatype event =
    MakeDirs string
  | CopyFile string string
  | Run "string list"
  | Started
  | ChildExit int
  | Killed

datatype completion = Returned int | Raised error | Interrupted | Hangs

definition subprocess_run ::
  "world \<Rightarrow> string list \<Rightarrow> filesystem \<Rightarrow> filesystem \<times> event list \<times> completion" where
  "subprocess_run w args fs =
     (case args of
        [] \<Rightarrow> (fs, [Run args], Raised IndexError)
      | exe # rest \<Rightarrow>
          (case fs exe of
             None \<Rightarrow> (fs, [Run args], Raised FileNotFoundError)
           | Some (Dir d) \<Rightarrow> (fs, [Run args], Raised PermissionError)
           | Some (File r wr img) \<Rightarrow>
               (case program w img args fs of
                  Cannot_start e \<Rightarrow> (fs, [Run args], Raised e)
                | Never_exits \<Rightarrow>
                    if interrupt w then (fs, [Run args, Started, Killed], Interrupted)
                    else (fs, [Run args, Started], Hangs)
                | Exits rc fs' \<Rightarrow>
                    if interrupt w then (fs, [Run args, Started, Killed], Interrupted)
                    else (fs', [Run args, Started, ChildExit rc], Returned rc))))"

subsection \<open>The script\<close>

text \<open>
  \<^verbatim>\<open>
  root_path = os.path.dirname(os.path.dirname(__file__))
  executable_original = os.path.join(root_path, "target/debug/borg_the_spire.exe")
  executable_copy_1 = os.path.join(root_path, "target/borg_the_spire/borg_the_spire_copy_1.exe")
  executable_copy_2 = os.path.join(root_path, "target/borg_the_spire/borg_the_spire_copy_2.exe")
  last_state_path = os.path.join(root_path, "data/last_state.json")
  \<close>
  \<open>file\<close> is \<open>__file__\<close>, the path the script was started as.
\<close>

definition root_path :: "string \<Rightarrow> string" where
  "root_path file = os_path_dirname (os_path_dirname file)"

definition executable_original :: "string \<Rightarrow> string" where
  "executable_original file = os_path_join (root_path file) ''target/debug/borg_the_spire.exe''"

definition executable_copy_1 :: "string \<Rightarrow> string" where
  "executable_copy_1 file =
     os_path_join (root_path file) ''target/borg_the_spire/borg_the_spire_copy_1.exe''"

definition executable_copy_2 :: "string \<Rightarrow> string" where
  "executable_copy_2 file =
     os_path_join (root_path file) ''target/borg_the_spire/borg_the_spire_copy_2.exe''"

definition last_state_path :: "string \<Rightarrow> string" where
  "last_state_path file = os_path_join (root_path file) ''data/last_state.json''"

text \<open>
  What \<open>os.path.join\<close> puts in front of a relative second argument: the first argument,
  with a separator added unless it is empty or ends with one.
\<close>

definition join_prefix :: "string \<Rightarrow> string" where
  "join_prefix a = (if a = [] \<or> last a = CHR ''/'' then a else a @ ''/'')"

text \<open>The argument of \<open>os.makedirs\<close> on line 16 and the list given to \<open>subprocess.run\<close>.\<close>

definition copies_dir :: "string \<Rightarrow> string" where
  "copies_dir file = os_path_join (root_path file) ''target/borg_the_spire''"

definition run_args :: "string \<Rightarrow> string list" where
  "run_args file =
     [executable_copy_1 file, ''watch'', executable_original file, executable_copy_2 file,
      ''communicate'', last_state_path file]"

text \<open>
  How the interpreter ends: after the last line (status 0), on an uncaught exception
  (traceback, status 1), on an uncaught \<open>KeyboardInterrupt\<close> (the process dies of the
  interrupt: 130 as a POSIX shell reports it, the control-C exit code on Windows, never 0),
  or never, while \<open>subprocess.run\<close> waits.
\<close>

datatype outcome = Exit_ok | Uncaught error | KeyboardInterrupt | Blocked

fun exit_status :: "outcome \<Rightarrow> int option" where
  "exit_status Exit_ok = Some 0"
| "exit_status (Uncaught e) = Some 1"
| "exit_status KeyboardInterrupt = Some 130"
| "exit_status Blocked = None"

fun outcome_of :: "completion \<Rightarrow> outcome" where
  "outcome_of (Returned rc) = Exit_ok"
| "outcome_of (Raised e) = Uncaught e"
| "outcome_of Interrupted = KeyboardInterrupt"
| "outcome_of Hangs = Blocked"

record execution =
  final :: filesystem
  trace :: "event list"
  outcome :: outcome

text \<open>The file system after line 16, and the result of the copy on line 17.\<close>

definition after_makedirs :: "string \<Rightarrow> world \<Rightarrow> filesystem \<times> error option" where
  "after_makedirs file w = os_makedirs (copies_dir file) True (files w)"

definition copy_step :: "string \<Rightarrow> filesystem \<Rightarrow> error + filesystem" where
  "copy_step file fs = shutil_copyfile (executable_original file) (executable_copy_1 file) fs"

definition script :: "string \<Rightarrow> world \<Rightarrow> execution" where
  "script file w =
     (case after_makedirs file w of
        (fs1, Some e) \<Rightarrow>
          \<lparr>final = fs1, trace = [MakeDirs (copies_dir file)], outcome = Uncaught e\<rparr>
      | (fs1, None) \<Rightarrow>
          (case copy_step file fs1 of
             Inl e \<Rightarrow>
               \<lparr>final = fs1,
                trace = [MakeDirs (copies_dir file),
                         CopyFile (executable_original file) (executable_copy_1 file)],
                outcome = Uncaught e\<rparr>
           | Inr fs2 \<Rightarrow>
               (case subprocess_run w (run_args file) fs2 of
                  (fs3, events, c) \<Rightarrow>
                    \<lparr>final = fs3,
                     trace = [MakeDirs (copies_dir file),
                              CopyFile (executable_original file) (executable_copy_1 file)]
                             @ events,
                     outcome = outcome_of c\<rparr>)))"

subsection \<open>Observing an execution\<close>

text \<open>
  The number of processes launched by the script that are alive after a sequence of
  events: a start adds one, an exit or a kill removes one.
\<close>

fun alive_step :: "nat \<Rightarrow> event \<Rightarrow> nat" where
  "alive_step n Started = Suc n"
| "alive_step n (ChildExit rc) = n - 1"
| "alive_step n Killed = n - 1"
| "alive_step n (MakeDirs d) = n"
| "alive_step n (CopyFile src dst) = n"
| "alive_step n (Run args) = n"

definition alive :: "event list \<Rightarrow> nat" where
  "alive events = foldl alive_step 0 events"

text \<open>
  What a path holds, whether it can be opened for reading and for writing, how often the
  script tried to copy and how many processes it started, and whether the copy on line 17
  was reached and raised.
\<close>

definition content_of :: "filesystem \<Rightarrow> string \<Rightarrow> byte list option" where
  "content_of fs p = (case fs p of Some (File r w content) \<Rightarrow> Some content | _ \<Rightarrow> None)"

definition readable :: "filesystem \<Rightarrow> string \<Rightarrow> bool" where
  "readable fs p = (case fs p of Some (File r w content) \<Rightarrow> r | _ \<Rightarrow> False)"

definition writable :: "filesystem \<Rightarrow> string \<Rightarrow> bool" where
  "writable fs p =
     (case fs p of
        Some (File r w content) \<Rightarrow> w
      | Some (Dir d) \<Rightarrow> False
      | None \<Rightarrow> (case parent_node fs p of Some (Dir d) \<Rightarrow> d | _ \<Rightarrow> False))"

fun is_copy :: "event \<Rightarrow> bool" where
  "is_copy (CopyFile src dst) = True"
| "is_copy ev = False"

fun is_start :: "event \<Rightarrow> bool" where
  "is_start Started = True"
| "is_start ev = False"

definition copy_attempts :: "event list \<Rightarrow> nat" where
  "copy_attempts events = length (filter is_copy events)"

definition launches :: "event list \<Rightarrow> nat" where
  "launches events = length (filter is_start events)"

definition copy_failed :: "string \<Rightarrow> world \<Rightarrow> bool" where
  "copy_failed file w =
     (case after_makedirs file w of
        (fs1, Some e) \<Rightarrow> False
      | (fs1, None) \<Rightarrow> (case copy_step file fs1 of Inl e \<Rightarrow> True | Inr fs2 \<Rightarrow> False))"

text \<open>
  Whether a trace holds a call of \<open>subprocess.run\<close> that starts \<open>exe\<close> with the mode word
  \<open>mode\<close> and the state file \<open>state\<close> among its arguments.
\<close>

fun runs_in_mode :: "string \<Rightarrow> string \<Rightarrow> string \<Rightarrow> event \<Rightarrow> bool" where
  "runs_in_mode exe mode state (Run (e # rest)) =
     (e = exe \<and> mode \<in> set rest \<and> state \<in> set rest)"
| "runs_in_mode exe mode state ev = False"

definition launched_in_mode :: "event list \<Rightarrow> string \<Rightarrow> string \<Rightarrow> string \<Rightarrow> bool" where
  "launched_in_mode events exe mode state = list_ex (runs_in_mode exe mode state) events"

subsection \<open>The copier of the rotation\<close>





subsection \<open>Concrete worlds\<close>

text \<open>
  A checkout at \<open>/b\<close> with the executable built, the same checkout before the first
  build, and a built checkout whose launched program runs until the operator interrupts
  the script.
\<close>

definition script_file :: string where
  "script_file = ''/b/scripts/borg_the_spire_watch_and_communicate.py''"

definition built_files :: filesystem where
  "built_files = map_of
     [(''/b'', Dir True), (''/b/target'', Dir True), (''/b/target/debug'', Dir True),
      (''/b/target/debug/borg_the_spire.exe'', File True True [77, 90, 144])]"

definition unbuilt_files :: filesystem where
  "unbuilt_files = map_of [(''/b'', Dir True), (''/b/scripts'', Dir True)]"

definition world_built :: world where
  "world_built = \<lparr>files = built_files, program = (\<lambda>img args fs. Exits 3 fs), interrupt = False\<rparr>"

definition world_unbuilt :: world where
  "world_unbuilt = \<lparr>files = unbuilt_files, program = (\<lambda>img args fs. Exits 3 fs), interrupt = False\<rparr>"

definition world_stopped :: world where
  "world_stopped = \<lparr>files = built_files, program = (\<lambda>img args fs. Never_exits), interrupt = True\<rparr>"

text \<open>A checkout that has run before: the copies directory and an older first copy exist.\<close>

definition rerun_files :: filesystem where
  "rerun_files = map_of
     [(''/b'', Dir True), (''/b/target'', Dir True), (''/b/target/debug'', Dir True),
      (''/b/target/debug/borg_the_spire.exe'', File True True [77, 90, 145]),
      (''/b/target/borg_the_spire'', Dir True),
      (''/b/target/borg_the_spire/borg_the_spire_copy_1.exe'', File True True [77, 90, 144])]"

definition world_rerun :: world where
  "world_rerun = \<lparr>files = rerun_files, program = (\<lambda>img args fs. Exits 0 fs), interrupt = False\<rparr>"

section \<open>Facts about the paths and the shape of an execution\<close>

text \<open>
  Each of the five paths is the root prefix followed by a fixed relative path, so they are
  pairwise different and the copies live in the directory that line 16 creates.
\<close>

lemma join_relative:
  "b \<noteq> [] \<Longrightarrow> hd b \<noteq> CHR ''/'' \<Longrightarrow> os_path_join a b = join_prefix a @ b"
  by (simp add: os_path_join_def join_prefix_def)

lemma executable_original_eq:
  "executable_original file = join_prefix (root_path file) @ ''target/debug/borg_the_spire.exe''"
  by (simp add: executable_original_def join_relative)

lemma executable_copy_1_eq:
  "executable_copy_1 file =
     join_prefix (root_path file) @ ''target/borg_the_spire/borg_the_spire_copy_1.exe''"
  by (simp add: executable_copy_1_def join_relative)

lemma executable_copy_2_eq:
  "executable_copy_2 file =
     join_prefix (root_path file) @ ''target/borg_the_spire/borg_the_spire_copy_2.exe''"
  by (simp add: executable_copy_2_def join_relative)

lemma last_state_path_eq:
  "last_state_path file = join_prefix (root_path file) @ ''data/last_state.json''"
  by (simp add: last_state_path_def join_relative)

lemma copies_dir_eq:
  "copies_dir file = join_prefix (root_path file) @ ''target/borg_the_spire''"
  by (simp add: copies_dir_def join_relative)

lemma original_not_copy_1: "executable_original file \<noteq> executable_copy_1 file"
  by (simp add: executable_original_eq executable_copy_1_eq)

lemma copy_2_not_copy_1: "executable_copy_2 file \<noteq> executable_copy_1 file"
  by (simp add: executable_copy_2_eq executable_copy_1_eq)

lemma copy_2_not_original: "executable_copy_2 file \<noteq> executable_original file"
  by (simp add: executable_copy_2_eq executable_original_eq)

lemma head_raw_append:
  "CHR ''/'' \<notin> set t \<Longrightarrow> head_raw (p @ ''/'' @ t) = p @ ''/''"
  by (simp add: head_raw_def dropWhile_append)

lemma tail_of_append:
  "CHR ''/'' \<notin> set t \<Longrightarrow> tail_of (p @ ''/'' @ t) = t"
  by (simp add: tail_of_def takeWhile_append)

lemma dirname_copy_1: "os_path_dirname (executable_copy_1 file) = copies_dir file"
proof -
  let ?p = "join_prefix (root_path file) @ ''target/borg_the_spire''"
  have e: "executable_copy_1 file = ?p @ ''/'' @ ''borg_the_spire_copy_1.exe''"
    by (simp add: executable_copy_1_eq)
  have h: "head_raw (executable_copy_1 file) = ?p @ ''/''"
    unfolding e by (rule head_raw_append) simp
  have ne: "?p @ ''/'' \<noteq> replicate (length (?p @ ''/'')) CHR ''/''"
  proof
    assume "?p @ ''/'' = replicate (length (?p @ ''/'')) CHR ''/''"
    then have "set (?p @ ''/'') \<subseteq> {CHR ''/''}" by (metis set_replicate_conv_if empty_subsetI subset_refl)
    then show False by simp
  qed
  have r: "rstrip_sep (?p @ ''/'') = ?p"
    by (simp add: rstrip_sep_def)
  show ?thesis
    unfolding os_path_dirname_def h Let_def using ne r by (simp add: copies_dir_eq)
qed

lemma copies_dir_tail: "snd (split_twice (copies_dir file)) = ''borg_the_spire''"
proof -
  have e: "copies_dir file = (join_prefix (root_path file) @ ''target'') @ ''/'' @ ''borg_the_spire''"
    by (simp add: copies_dir_eq)
  have "tail_of (copies_dir file) = ''borg_the_spire''"
    unfolding e by (rule tail_of_append) simp
  then show ?thesis by (simp add: split_twice_def os_path_split_def)
qed

lemma copies_dir_nonempty: "copies_dir file \<noteq> []"
  by (simp add: copies_dir_eq)

lemma script_shapes:
  "(\<exists>e. trace (script file w) = [MakeDirs (copies_dir file)] \<and> outcome (script file w) = Uncaught e)
 \<or> (\<exists>e. trace (script file w) = [MakeDirs (copies_dir file), CopyFile (executable_original file) (executable_copy_1 file)] \<and> outcome (script file w) = Uncaught e)
 \<or> (\<exists>e. trace (script file w) = [MakeDirs (copies_dir file), CopyFile (executable_original file) (executable_copy_1 file), Run (run_args file)] \<and> outcome (script file w) = Uncaught e)
 \<or> (trace (script file w) = [MakeDirs (copies_dir file), CopyFile (executable_original file) (executable_copy_1 file), Run (run_args file), Started] \<and> outcome (script file w) = Blocked)
 \<or> (trace (script file w) = [MakeDirs (copies_dir file), CopyFile (executable_original file) (executable_copy_1 file), Run (run_args file), Started, Killed] \<and> outcome (script file w) = KeyboardInterrupt)
 \<or> (\<exists>rc. trace (script file w) = [MakeDirs (copies_dir file), CopyFile (executable_original file) (executable_copy_1 file), Run (run_args file), Started, ChildExit rc] \<and> outcome (script file w) = Exit_ok)"
  unfolding script_def subprocess_run_def
  by (simp add: run_args_def split: prod.splits option.splits sum.splits list.splits node.splits child.splits)

text \<open>The executions in the concrete worlds, evaluated.\<close>

lemma paths_at_script_file:
  "copies_dir script_file = ''/b/target/borg_the_spire''"
  "executable_original script_file = ''/b/target/debug/borg_the_spire.exe''"
  "executable_copy_1 script_file = ''/b/target/borg_the_spire/borg_the_spire_copy_1.exe''"
  "executable_copy_2 script_file = ''/b/target/borg_the_spire/borg_the_spire_copy_2.exe''"
  "last_state_path script_file = ''/b/data/last_state.json''"
  by code_simp+

lemma run_built:
  "trace (script script_file world_built) =
     [MakeDirs ''/b/target/borg_the_spire'',
      CopyFile ''/b/target/debug/borg_the_spire.exe''
               ''/b/target/borg_the_spire/borg_the_spire_copy_1.exe'',
      Run [''/b/target/borg_the_spire/borg_the_spire_copy_1.exe'', ''watch'',
           ''/b/target/debug/borg_the_spire.exe'',
           ''/b/target/borg_the_spire/borg_the_spire_copy_2.exe'',
           ''communicate'', ''/b/data/last_state.json''],
      Started, ChildExit 3]"
  "outcome (script script_file world_built) = Exit_ok"
  by code_simp+

lemma run_unbuilt:
  "trace (script script_file world_unbuilt) =
     [MakeDirs ''/b/target/borg_the_spire'',
      CopyFile ''/b/target/debug/borg_the_spire.exe''
               ''/b/target/borg_the_spire/borg_the_spire_copy_1.exe'']"
  "outcome (script script_file world_unbuilt) = Uncaught FileNotFoundError"
  by code_simp+

lemma run_stopped:
  "trace (script script_file world_stopped) =
     [MakeDirs ''/b/target/borg_the_spire'',
      CopyFile ''/b/target/debug/borg_the_spire.exe''
               ''/b/target/borg_the_spire/borg_the_spire_copy_1.exe'',
      Run [''/b/target/borg_the_spire/borg_the_spire_copy_1.exe'', ''watch'',
           ''/b/target/debug/borg_the_spire.exe'',
           ''/b/target/borg_the_spire/borg_the_spire_copy_2.exe'',
           ''communicate'', ''/b/data/last_state.json''],
      Started, Killed]"
  "outcome (script script_file world_stopped) = KeyboardInterrupt"
  by code_simp+

section \<open>Properties of the script\<close>

text \<open>
  C1. Whenever the script calls \<open>subprocess.run\<close>, the argument list is the first copy
  followed by exactly \<open>watch\<close>, the path of the original executable, the path of the
  second copy slot, \<open>communicate\<close> and the path of the state file. The process is started
  from the first copy, and the slot passed as the hint is the other one.
\<close>

theorem launch_arguments:
  assumes "Run args \<in> set (trace (script file w))"
  shows "args = [executable_copy_1 file, ''watch'', executable_original file,
                 executable_copy_2 file, ''communicate'', last_state_path file]
         \<and> hd args = executable_copy_1 file
         \<and> args ! 3 \<noteq> hd args"
proof -
  from assms have "args = run_args file"
    using script_shapes [of "file" w] by auto
  then show ?thesis
    by (simp add: run_args_def copy_2_not_copy_1)
qed

theorem launch_arguments_witness:
  "Run [''/b/target/borg_the_spire/borg_the_spire_copy_1.exe'', ''watch'',
        ''/b/target/debug/borg_the_spire.exe'',
        ''/b/target/borg_the_spire/borg_the_spire_copy_2.exe'',
        ''communicate'', ''/b/data/last_state.json'']
     \<in> set (trace (script script_file world_built))
   \<and> [''/b/target/borg_the_spire/borg_the_spire_copy_1.exe'', ''watch'',
        ''/b/target/debug/borg_the_spire.exe'',
        ''/b/target/borg_the_spire/borg_the_spire_copy_2.exe'',
        ''communicate'', ''/b/data/last_state.json'']
     = [executable_copy_1 script_file, ''watch'', executable_original script_file,
        executable_copy_2 script_file, ''communicate'', last_state_path script_file]"
proof -
  have h: "Run [''/b/target/borg_the_spire/borg_the_spire_copy_1.exe'', ''watch'',
        ''/b/target/debug/borg_the_spire.exe'',
        ''/b/target/borg_the_spire/borg_the_spire_copy_2.exe'',
        ''communicate'', ''/b/data/last_state.json'']
     \<in> set (trace (script script_file world_built))"
    by (simp add: run_built)
  from launch_arguments [OF h] h show ?thesis by simp
qed

text \<open>Every prefix of every possible trace has at most one live process.\<close>

lemma alive_prefixes:
  "alive (take n [MakeDirs d]) = 0"
  "alive (take n [MakeDirs d, CopyFile a b]) = 0"
  "alive (take n [MakeDirs d, CopyFile a b, Run args]) = 0"
  "alive (take n [MakeDirs d, CopyFile a b, Run args, Started]) \<le> 1"
  "alive (take n [MakeDirs d, CopyFile a b, Run args, Started, Killed]) \<le> 1"
  "alive (take n [MakeDirs d, CopyFile a b, Run args, Started, ChildExit rc]) \<le> 1"
  by (simp_all add: alive_def take_Cons')

text \<open>
  C2. At every point of an execution (after every prefix of its trace) at most one process
  launched by the script is alive, and so when the script exits.
\<close>

theorem at_most_one_alive:
  "(\<forall>n. alive (take n (trace (script file w))) \<le> 1)
   \<and> (exit_status (outcome (script file w)) \<noteq> None \<longrightarrow> alive (trace (script file w)) \<le> 1)"
proof -
  have a: "alive (take n (trace (script file w))) \<le> 1" for n
    using script_shapes [of "file" w] alive_prefixes [of n]
    by (elim disjE exE conjE) simp_all
  from a [of "length (trace (script file w))"] a show ?thesis by simp
qed

theorem at_most_one_alive_witness:
  "exit_status (outcome (script script_file world_built)) \<noteq> None
   \<and> alive (take 4 (trace (script script_file world_built))) = 1
   \<and> alive (trace (script script_file world_built)) \<le> 1"
proof -
  have "alive (take 4 (trace (script script_file world_built))) = 1"
    by (simp add: run_built alive_def)
  then show ?thesis
    using at_most_one_alive [of script_file world_built] by (simp add: run_built)
qed

text \<open>
  C6. Whenever the script writes a copy slot, the slot is the first copy, no process has
  been launched before that write and none is alive, and no write into any slot follows:
  the write is complete before the launch from that slot, and the slot is not written
  again while the launched process may be alive.
\<close>

theorem copy_before_launch:
  assumes "trace (script file w) = before @ CopyFile src dst # after"
  shows "dst = executable_copy_1 file \<and> src = executable_original file
         \<and> Started \<notin> set before \<and> (\<forall>args. Run args \<notin> set before) \<and> alive before = 0
         \<and> (\<forall>s d. CopyFile s d \<notin> set after)"
proof -
  from script_shapes [of "file" w] obtain rest where
    t: "trace (script file w) = [MakeDirs (copies_dir file)] \<or>
        (trace (script file w) = MakeDirs (copies_dir file) #
           CopyFile (executable_original file) (executable_copy_1 file) # rest
         \<and> (\<forall>s d. CopyFile s d \<notin> set rest))"
    by (elim disjE exE conjE) auto
  have "before @ CopyFile src dst # after \<noteq> [MakeDirs (copies_dir file)]"
    by (cases before) auto
  with assms have "trace (script file w) \<noteq> [MakeDirs (copies_dir file)]"
    by simp
  with t have shape: "MakeDirs (copies_dir file) #
           CopyFile (executable_original file) (executable_copy_1 file) # rest
           = before @ CopyFile src dst # after"
    and clean: "\<forall>s d. CopyFile s d \<notin> set rest"
    using assms by auto
  have "before = [MakeDirs (copies_dir file)]"
  proof (cases before)
    case Nil
    with shape show ?thesis by simp
  next
    case (Cons b bs)
    show ?thesis
    proof (cases bs)
      case Nil
      with Cons shape show ?thesis by simp
    next
      case (Cons c cs)
      with \<open>before = b # bs\<close> shape have "rest = cs @ CopyFile src dst # after" by simp
      then have "CopyFile src dst \<in> set rest" by simp
      with clean show ?thesis by blast
    qed
  qed
  with shape clean show ?thesis by (simp add: alive_def)
qed

theorem copy_before_launch_witness:
  "trace (script script_file world_built) =
     [MakeDirs ''/b/target/borg_the_spire''] @
     CopyFile ''/b/target/debug/borg_the_spire.exe''
              ''/b/target/borg_the_spire/borg_the_spire_copy_1.exe'' #
     [Run [''/b/target/borg_the_spire/borg_the_spire_copy_1.exe'', ''watch'',
           ''/b/target/debug/borg_the_spire.exe'',
           ''/b/target/borg_the_spire/borg_the_spire_copy_2.exe'',
           ''communicate'', ''/b/data/last_state.json''],
      Started, ChildExit 3]
   \<and> Started \<notin> set [MakeDirs ''/b/target/borg_the_spire'']
   \<and> alive [MakeDirs ''/b/target/borg_the_spire''] = 0"
proof -
  have h: "trace (script script_file world_built) =
     [MakeDirs ''/b/target/borg_the_spire''] @
     CopyFile ''/b/target/debug/borg_the_spire.exe''
              ''/b/target/borg_the_spire/borg_the_spire_copy_1.exe'' #
     [Run [''/b/target/borg_the_spire/borg_the_spire_copy_1.exe'', ''watch'',
           ''/b/target/debug/borg_the_spire.exe'',
           ''/b/target/borg_the_spire/borg_the_spire_copy_2.exe'',
           ''communicate'', ''/b/data/last_state.json''],
      Started, ChildExit 3]"
    by (simp add: run_built)
  from copy_before_launch [OF h] h show ?thesis by simp
qed

lemma copyfile_needs_access:
  "shutil_copyfile src dst fs = Inr fs' \<Longrightarrow> readable fs src \<and> writable fs dst"
  unfolding shutil_copyfile_def open_rb_def open_wb_def readable_def writable_def
  by (auto split: option.splits node.splits if_splits sum.splits)

lemma copyfile_content:
  "shutil_copyfile src dst fs = Inr fs' \<Longrightarrow>
   content_of fs src \<noteq> None \<and> content_of fs' dst = content_of fs src
   \<and> (\<forall>p. p \<noteq> dst \<longrightarrow> fs' p = fs p)"
  unfolding shutil_copyfile_def open_rb_def open_wb_def content_of_def
  by (auto split: option.splits node.splits if_splits sum.splits)

text \<open>
  C4. After a successful copy the first copy slot holds exactly the bytes that the original
  executable held when the copy was made, and the original still holds them.
\<close>

theorem copy_is_exact:
  assumes "copy_step file fs = Inr fs'"
  shows "\<exists>content. content_of fs (executable_original file) = Some content
          \<and> content_of fs' (executable_copy_1 file) = Some content
          \<and> content_of fs' (executable_original file) = Some content"
proof -
  from assms copyfile_content
  have c: "content_of fs (executable_original file) \<noteq> None"
    and d: "content_of fs' (executable_copy_1 file) = content_of fs (executable_original file)"
    and k: "\<forall>p. p \<noteq> executable_copy_1 file \<longrightarrow> fs' p = fs p"
    unfolding copy_step_def by blast+
  from k original_not_copy_1 have "fs' (executable_original file) = fs (executable_original file)"
    by blast
  then have "content_of fs' (executable_original file) = content_of fs (executable_original file)"
    by (simp add: content_of_def)
  with c d show ?thesis by auto
qed

text \<open>
  In the checkout that has run before, the older first copy is replaced by the bytes of
  the newer build.
\<close>

lemma rerun_before:
  "content_of (fst (after_makedirs script_file world_rerun)) (executable_copy_1 script_file)
     = Some [77, 90, 144]"
  "content_of (fst (after_makedirs script_file world_rerun)) (executable_original script_file)
     = Some [77, 90, 145]"
  by code_simp+

lemma rerun_copy:
  "(case copy_step script_file (fst (after_makedirs script_file world_rerun)) of
      Inl e \<Rightarrow> False
    | Inr fs' \<Rightarrow> content_of fs' (executable_copy_1 script_file) = Some [77, 90, 145])"
  by code_simp

theorem copy_is_exact_witness:
  "(case copy_step script_file (fst (after_makedirs script_file world_rerun)) of
      Inl e \<Rightarrow> False
    | Inr fs' \<Rightarrow>
        content_of (fst (after_makedirs script_file world_rerun))
          (executable_original script_file) = Some [77, 90, 145]
        \<and> content_of fs' (executable_copy_1 script_file) = Some [77, 90, 145]
        \<and> content_of fs' (executable_original script_file) = Some [77, 90, 145])"
proof (cases "copy_step script_file (fst (after_makedirs script_file world_rerun))")
  case (Inl e)
  with rerun_copy show ?thesis by simp
next
  case (Inr fs')
  from copy_is_exact [OF Inr] rerun_before(2) Inr show ?thesis by auto
qed

lemma script_copy_failed:
  assumes "after_makedirs file w = (fs1, None)" and "copy_step file fs1 = Inl e"
  shows "script file w =
           \<lparr>final = fs1,
            trace = [MakeDirs (copies_dir file),
                     CopyFile (executable_original file) (executable_copy_1 file)],
            outcome = Uncaught e\<rparr>"
  using assms by (simp add: script_def)

text \<open>
  C5 (as the script does it). If, when line 17 is reached, the original cannot be read or
  the first copy slot cannot be written, \<open>shutil.copyfile\<close> raises (it never reports
  success) and the script does not catch it: the single attempt is fatal at once. There is
  no retry, delay or backoff; the script ends with status 1 without running anything.
\<close>

theorem copy_failure_is_fatal:
  assumes "after_makedirs file w = (fs1, None)"
    and "\<not> readable fs1 (executable_original file) \<or> \<not> writable fs1 (executable_copy_1 file)"
  shows "(\<exists>e. copy_step file fs1 = Inl e \<and> outcome (script file w) = Uncaught e)
         \<and> copy_attempts (trace (script file w)) = 1
         \<and> exit_status (outcome (script file w)) = Some 1
         \<and> (\<forall>args. Run args \<notin> set (trace (script file w)))
         \<and> Started \<notin> set (trace (script file w))
         \<and> final (script file w) = fs1"
proof -
  from assms(2) have "\<not> (\<exists>fs'. copy_step file fs1 = Inr fs')"
    unfolding copy_step_def by (blast dest: copyfile_needs_access)
  then obtain e where e: "copy_step file fs1 = Inl e"
    by (cases "copy_step file fs1") auto
  from script_copy_failed [OF assms(1) e] e show ?thesis
    by (simp add: copy_attempts_def)
qed

lemma unbuilt_after_makedirs:
  "snd (after_makedirs script_file world_unbuilt) = None"
  "\<not> readable (fst (after_makedirs script_file world_unbuilt)) (executable_original script_file)"
  by code_simp+

theorem copy_failure_is_fatal_witness:
  "snd (after_makedirs script_file world_unbuilt) = None
   \<and> \<not> readable (fst (after_makedirs script_file world_unbuilt)) (executable_original script_file)
   \<and> copy_attempts (trace (script script_file world_unbuilt)) = 1
   \<and> exit_status (outcome (script script_file world_unbuilt)) = Some 1
   \<and> outcome (script script_file world_unbuilt) = Uncaught FileNotFoundError"
proof -
  have h1: "after_makedirs script_file world_unbuilt
              = (fst (after_makedirs script_file world_unbuilt), None)"
    using unbuilt_after_makedirs(1) by (metis prod.collapse)
  have h2: "\<not> readable (fst (after_makedirs script_file world_unbuilt))
                (executable_original script_file)
            \<or> \<not> writable (fst (after_makedirs script_file world_unbuilt))
                (executable_copy_1 script_file)"
    using unbuilt_after_makedirs(2) by simp
  from copy_failure_is_fatal [OF h1 h2] unbuilt_after_makedirs run_unbuilt(2)
  show ?thesis by simp
qed

lemma unbuilt_copy_failed: "copy_failed script_file world_unbuilt"
  by code_simp

text \<open>
  The claim that a failed copy is retried fails where the executable has not been built:
  the copy fails and there is exactly one attempt.
\<close>

theorem copy_retry_counterexample:
  "\<not> (copy_failed script_file world_unbuilt
       \<longrightarrow> 1 < copy_attempts (trace (script script_file world_unbuilt)))"
  using unbuilt_copy_failed by (simp add: run_unbuilt copy_attempts_def)

lemma mkdir_tolerant_isdir:
  "mkdir_tolerant name True fs = (fs', None) \<Longrightarrow> path_isdir fs' name"
  unfolding mkdir_tolerant_def os_mkdir_def path_isdir_def
  by (auto split: if_splits option.splits node.splits)

lemma makedirs_isdir:
  assumes "os_makedirs name True fs = (fs', None)" and "snd (split_twice name) \<noteq> ''.''"
  shows "path_isdir fs' name"
  using assms
  by (subst (asm) os_makedirs.simps)
     (auto split: if_splits prod.splits option.splits dest: mkdir_tolerant_isdir)

lemma mkdir_tolerant_existing:
  "path_isdir fs name \<Longrightarrow> mkdir_tolerant name True fs = (fs, None)"
  "path_isdir fs name \<Longrightarrow> name \<noteq> [] \<Longrightarrow> mkdir_tolerant name False fs = (fs, Some FileExistsError)"
  unfolding mkdir_tolerant_def os_mkdir_def path_isdir_def
  by (auto split: if_splits option.splits node.splits)

lemma makedirs_existing:
  assumes "path_isdir fs name" and "path_exists fs (fst (split_twice name))"
  shows "os_makedirs name True fs = (fs, None)"
    and "name \<noteq> [] \<Longrightarrow> os_makedirs name False fs = (fs, Some FileExistsError)"
  using assms by (simp_all add: os_makedirs.simps mkdir_tolerant_existing)

text \<open>
  C10. Line 16 succeeds and changes nothing when the copies directory already exists,
  its parent directory being there as in any real file system (without \<open>exist_ok\<close> it
  would raise \<open>FileExistsError\<close>); and whenever line 16 succeeds, the copies directory
  exists and is the parent directory of the first copy slot, so when the copy on line 17
  runs the parent directory of its destination is not missing.
\<close>

theorem copies_dir_ready:
  "(path_isdir (files w) (copies_dir file)
      \<and> path_exists (files w) (fst (split_twice (copies_dir file)))
    \<longrightarrow> after_makedirs file w = (files w, None)
        \<and> os_makedirs (copies_dir file) False (files w) = (files w, Some FileExistsError))
   \<and> (after_makedirs file w = (fs1, None)
    \<longrightarrow> path_isdir fs1 (copies_dir file)
        \<and> parent_node fs1 (executable_copy_1 file) = fs1 (copies_dir file)
        \<and> (\<exists>d. parent_node fs1 (executable_copy_1 file) = Some (Dir d)))"
proof (intro conjI impI)
  assume "path_isdir (files w) (copies_dir file)
          \<and> path_exists (files w) (fst (split_twice (copies_dir file)))"
  then show "after_makedirs file w = (files w, None)"
    and "os_makedirs (copies_dir file) False (files w) = (files w, Some FileExistsError)"
    using makedirs_existing [of "files w" "copies_dir file"] copies_dir_nonempty [of "file"]
    by (simp_all add: after_makedirs_def)
next
  assume a: "after_makedirs file w = (fs1, None)"
  then show d: "path_isdir fs1 (copies_dir file)"
    unfolding after_makedirs_def
    by (rule makedirs_isdir) (simp add: copies_dir_tail)
  show p: "parent_node fs1 (executable_copy_1 file) = fs1 (copies_dir file)"
    by (simp add: parent_node_def dirname_copy_1 copies_dir_nonempty)
  from d show "\<exists>d. parent_node fs1 (executable_copy_1 file) = Some (Dir d)"
    unfolding p path_isdir_def by (auto split: option.splits node.splits)
qed

text \<open>
  The checkout that has run before has the directory already; before the first build
  line 16 creates it.
\<close>

lemma rerun_dir:
  "path_isdir (files world_rerun) (copies_dir script_file)"
  "path_exists (files world_rerun) (fst (split_twice (copies_dir script_file)))"
  by code_simp+

lemma unbuilt_no_dir: "\<not> path_isdir (files world_unbuilt) (copies_dir script_file)"
  by code_simp

theorem copies_dir_ready_witness:
  "path_isdir (files world_rerun) (copies_dir script_file)
   \<and> path_exists (files world_rerun) (fst (split_twice (copies_dir script_file)))
   \<and> after_makedirs script_file world_rerun = (files world_rerun, None)
   \<and> os_makedirs (copies_dir script_file) False (files world_rerun)
       = (files world_rerun, Some FileExistsError)
   \<and> parent_node (files world_rerun) (executable_copy_1 script_file)
       = files world_rerun (copies_dir script_file)
   \<and> \<not> path_isdir (files world_unbuilt) (copies_dir script_file)
   \<and> snd (after_makedirs script_file world_unbuilt) = None
   \<and> path_isdir (fst (after_makedirs script_file world_unbuilt)) (copies_dir script_file)"
proof -
  have a: "after_makedirs script_file world_rerun = (files world_rerun, None)
           \<and> os_makedirs (copies_dir script_file) False (files world_rerun)
               = (files world_rerun, Some FileExistsError)"
    using copies_dir_ready [of world_rerun script_file "files world_rerun"] rerun_dir by blast
  have b: "after_makedirs script_file world_unbuilt
             = (fst (after_makedirs script_file world_unbuilt), None)"
    using unbuilt_after_makedirs(1) by (metis prod.collapse)
  from a copies_dir_ready [of world_rerun script_file "files world_rerun"]
  have "parent_node (files world_rerun) (executable_copy_1 script_file)
          = files world_rerun (copies_dir script_file)"
    by blast
  moreover from b
    copies_dir_ready [of world_unbuilt script_file "fst (after_makedirs script_file world_unbuilt)"]
  have "path_isdir (fst (after_makedirs script_file world_unbuilt)) (copies_dir script_file)"
    by blast
  ultimately show ?thesis
    using a rerun_dir unbuilt_after_makedirs(1) unbuilt_no_dir by blast
qed

lemma longer_differs:
  assumes "length x < length b"
  shows "p @ b \<noteq> x"
proof
  assume "p @ b = x"
  then have "length (p @ b) = length x" by simp
  with assms show False by simp
qed

lemma no_initialize: "''initialize'' \<notin> set (tl (run_args file))"
proof -
  have "executable_original file \<noteq> ''initialize''"
    unfolding executable_original_eq by (rule longer_differs) simp
  moreover have "executable_copy_2 file \<noteq> ''initialize''"
    unfolding executable_copy_2_eq by (rule longer_differs) simp
  moreover have "last_state_path file \<noteq> ''initialize''"
    unfolding last_state_path_eq by (rule longer_differs) simp
  ultimately show ?thesis
    by (auto simp: run_args_def)
qed

lemma run_args_modes:
  "runs_in_mode (executable_copy_1 file) ''communicate'' (last_state_path file) (Run (run_args file))"
  "runs_in_mode (executable_copy_1 file) ''watch'' (last_state_path file) (Run (run_args file))"
  "\<not> runs_in_mode (executable_copy_1 file) ''initialize'' (last_state_path file) (Run (run_args file))"
  using no_initialize [of "file"] by (simp_all add: run_args_def)

text \<open>
  C7 (as the script does it). Whenever the script launches a process, it has first copied
  the original into the first copy slot and then runs that copy with the mode words
  \<open>watch\<close> and \<open>communicate\<close> and the state file path as the last argument; the word
  \<open>initialize\<close> is not among the arguments.
\<close>

theorem first_launch:
  assumes "Started \<in> set (trace (script file w))"
  shows "(\<exists>rest. trace (script file w) =
            MakeDirs (copies_dir file)
            # CopyFile (executable_original file) (executable_copy_1 file)
            # Run (run_args file) # Started # rest)
         \<and> launched_in_mode (trace (script file w)) (executable_copy_1 file)
              ''communicate'' (last_state_path file)
         \<and> launched_in_mode (trace (script file w)) (executable_copy_1 file)
              ''watch'' (last_state_path file)
         \<and> \<not> launched_in_mode (trace (script file w)) (executable_copy_1 file)
              ''initialize'' (last_state_path file)
         \<and> last (run_args file) = last_state_path file"
proof -
  from assms script_shapes [of "file" w]
  obtain rest where t: "trace (script file w) =
            MakeDirs (copies_dir file)
            # CopyFile (executable_original file) (executable_copy_1 file)
            # Run (run_args file) # Started # rest"
    and r: "rest = [] \<or> rest = [Killed] \<or> (\<exists>rc. rest = [ChildExit rc])"
    by (elim disjE exE conjE) auto
  from r show ?thesis
    unfolding t launched_in_mode_def
    using run_args_modes [of "file"]
    by (auto simp: run_args_def)
qed

theorem first_launch_witness:
  "Started \<in> set (trace (script script_file world_built))
   \<and> launched_in_mode (trace (script script_file world_built))
        (executable_copy_1 script_file) ''communicate'' (last_state_path script_file)
   \<and> \<not> launched_in_mode (trace (script script_file world_built))
        (executable_copy_1 script_file) ''initialize'' (last_state_path script_file)"
proof -
  have h: "Started \<in> set (trace (script script_file world_built))"
    by (simp add: run_built)
  from first_launch [OF h] h show ?thesis by simp
qed

text \<open>
  The claim that the first copy is launched in \<open>initialize\<close> mode fails in the built
  checkout: no call of \<open>subprocess.run\<close> has that word among its arguments.
\<close>

theorem initialize_mode_counterexample:
  "\<not> launched_in_mode (trace (script script_file world_built))
        (executable_copy_1 script_file) ''initialize'' (last_state_path script_file)"
  by (simp add: run_built launched_in_mode_def paths_at_script_file)

lemma copy_failed_outcome:
  "copy_failed file w \<Longrightarrow> \<exists>e. outcome (script file w) = Uncaught e"
  unfolding copy_failed_def script_def
  by (auto split: prod.splits option.splits sum.splits)

text \<open>
  An interrupt while the launched process runs always kills it, and nothing else does.
\<close>

lemma interrupt_kills:
  "interrupt w \<Longrightarrow> Started \<in> set (trace (script file w))
   \<Longrightarrow> Killed \<in> set (trace (script file w))"
  unfolding script_def subprocess_run_def
  by (auto split: prod.splits option.splits sum.splits list.splits node.splits child.splits
      if_splits)

lemma killed_interrupt:
  "Killed \<in> set (trace (script file w)) \<Longrightarrow> interrupt w"
  unfolding script_def subprocess_run_def
  by (auto split: prod.splits option.splits sum.splits list.splits node.splits child.splits
      if_splits)

text \<open>
  C8 (as the script does it). The script exits with status 0 exactly when the launched
  process exits by itself and \<open>subprocess.run\<close> returns, whatever the return code; it
  exits with status 1 when the copy fails (there are no retries); and whenever the
  operator interrupts it while its process runs, the process is killed, none is left
  alive, and the script dies of the uncaught interrupt, with a non-zero status. A
  process is killed in no other case.
\<close>

theorem exit_statuses:
  "(exit_status (outcome (script file w)) = Some 0
      \<longleftrightarrow> (\<exists>rc. ChildExit rc \<in> set (trace (script file w))))
   \<and> (copy_failed file w \<longrightarrow> exit_status (outcome (script file w)) = Some 1)
   \<and> (interrupt w \<and> Started \<in> set (trace (script file w))
        \<longrightarrow> Killed \<in> set (trace (script file w))
            \<and> alive (trace (script file w)) = 0
            \<and> outcome (script file w) = KeyboardInterrupt
            \<and> exit_status (outcome (script file w)) \<noteq> None
            \<and> exit_status (outcome (script file w)) \<noteq> Some 0)
   \<and> (Killed \<in> set (trace (script file w))
        \<longrightarrow> interrupt w \<and> Started \<in> set (trace (script file w))
            \<and> outcome (script file w) = KeyboardInterrupt
            \<and> exit_status (outcome (script file w)) \<noteq> None
            \<and> exit_status (outcome (script file w)) \<noteq> Some 0)"
proof (intro conjI impI)
  show "exit_status (outcome (script file w)) = Some 0
      \<longleftrightarrow> (\<exists>rc. ChildExit rc \<in> set (trace (script file w)))"
    using script_shapes [of "file" w] by (elim disjE exE conjE) auto
next
  assume "copy_failed file w"
  then show "exit_status (outcome (script file w)) = Some 1"
    by (auto dest: copy_failed_outcome)
next
  assume "interrupt w \<and> Started \<in> set (trace (script file w))"
  then have k: "Killed \<in> set (trace (script file w))"
    by (auto dest: interrupt_kills)
  then show "Killed \<in> set (trace (script file w))" .
  from k have t: "trace (script file w) =
      [MakeDirs (copies_dir file), CopyFile (executable_original file) (executable_copy_1 file),
       Run (run_args file), Started, Killed]"
    and o: "outcome (script file w) = KeyboardInterrupt"
    using script_shapes [of "file" w] by (elim disjE exE conjE; auto)+
  show "alive (trace (script file w)) = 0"
    unfolding t by (simp add: alive_def)
  show "outcome (script file w) = KeyboardInterrupt" by (rule o)
  show "exit_status (outcome (script file w)) \<noteq> None"
    and "exit_status (outcome (script file w)) \<noteq> Some 0"
    unfolding o by simp_all
next
  assume k: "Killed \<in> set (trace (script file w))"
  then show o: "outcome (script file w) = KeyboardInterrupt"
    using script_shapes [of "file" w] by (elim disjE exE conjE) auto
  show "exit_status (outcome (script file w)) \<noteq> None"
    and "exit_status (outcome (script file w)) \<noteq> Some 0"
    unfolding o by simp_all
  from k show "Started \<in> set (trace (script file w))"
    using script_shapes [of "file" w] by (elim disjE exE conjE) auto
  from k show "interrupt w"
    by (rule killed_interrupt)
qed

theorem exit_statuses_witness:
  "exit_status (outcome (script script_file world_built)) = Some 0
   \<and> ChildExit 3 \<in> set (trace (script script_file world_built))
   \<and> copy_failed script_file world_unbuilt
   \<and> exit_status (outcome (script script_file world_unbuilt)) = Some 1
   \<and> interrupt world_stopped
   \<and> Started \<in> set (trace (script script_file world_stopped))
   \<and> Killed \<in> set (trace (script script_file world_stopped))
   \<and> alive (trace (script script_file world_stopped)) = 0
   \<and> outcome (script script_file world_stopped) = KeyboardInterrupt
   \<and> exit_status (outcome (script script_file world_stopped)) \<noteq> Some 0"
proof -
  have a: "ChildExit 3 \<in> set (trace (script script_file world_built))"
    by (simp add: run_built)
  have i: "interrupt world_stopped" by (simp add: world_stopped_def)
  have s: "Started \<in> set (trace (script script_file world_stopped))"
    by (simp add: run_stopped)
  from exit_statuses [of script_file world_stopped] i s
  have b: "Killed \<in> set (trace (script script_file world_stopped))"
    and z: "alive (trace (script script_file world_stopped)) = 0"
    by blast+
  from a have "\<exists>rc. ChildExit rc \<in> set (trace (script script_file world_built))" by blast
  with exit_statuses [of script_file world_built]
  have "exit_status (outcome (script script_file world_built)) = Some 0" by blast
  moreover from exit_statuses [of script_file world_unbuilt] unbuilt_copy_failed
  have "exit_status (outcome (script script_file world_unbuilt)) = Some 1" by blast
  moreover from exit_statuses [of script_file world_stopped] b
  have "outcome (script script_file world_stopped) = KeyboardInterrupt
        \<and> exit_status (outcome (script script_file world_stopped)) \<noteq> Some 0" by blast
  ultimately show ?thesis using a b i s z unbuilt_copy_failed by blast
qed

text \<open>
  The claim that an explicit stop gives status 0 fails where the operator interrupts the
  waiting script: the status is that of the uncaught \<open>KeyboardInterrupt\<close>.
\<close>

theorem explicit_stop_counterexample:
  "\<not> (interrupt world_stopped \<and> Killed \<in> set (trace (script script_file world_stopped))
       \<longrightarrow> exit_status (outcome (script script_file world_stopped)) = Some 0)"
proof -
  have "interrupt world_stopped" by (simp add: world_stopped_def)
  then show ?thesis by (simp add: run_stopped)
qed

lemma counts:
  "copy_attempts [MakeDirs d] = 0" "launches [MakeDirs d] = 0"
  "copy_attempts (MakeDirs d # CopyFile a b # rest) = 1 + copy_attempts rest"
  "launches (MakeDirs d # CopyFile a b # rest) = launches rest"
  "copy_attempts [] = 0" "launches [] = 0"
  "copy_attempts (Run args # rest) = copy_attempts rest"
  "launches (Run args # rest) = launches rest"
  "copy_attempts (Started # rest) = copy_attempts rest"
  "launches (Started # rest) = 1 + launches rest"
  "copy_attempts (Killed # rest) = copy_attempts rest"
  "launches (Killed # rest) = launches rest"
  "copy_attempts (ChildExit rc # rest) = copy_attempts rest"
  "launches (ChildExit rc # rest) = launches rest"
  by (simp_all add: copy_attempts_def launches_def)

text \<open>
  C9 (as the script does it). Every execution attempts at most one copy and launches at
  most one process, exactly one of each unless a library call raises; every copy is from
  the original into the first copy slot, never the second; the script exits only when no
  launched process is alive, and it is blocked exactly while its one process is alive
  and the operator has not interrupted.
\<close>

theorem one_copy_one_launch:
  "copy_attempts (trace (script file w)) \<le> 1
   \<and> launches (trace (script file w)) \<le> 1
   \<and> ((\<forall>e. outcome (script file w) \<noteq> Uncaught e)
        \<longrightarrow> copy_attempts (trace (script file w)) = 1 \<and> launches (trace (script file w)) = 1)
   \<and> (\<forall>src dst. CopyFile src dst \<in> set (trace (script file w))
        \<longrightarrow> src = executable_original file \<and> dst = executable_copy_1 file
            \<and> dst \<noteq> executable_copy_2 file)
   \<and> (exit_status (outcome (script file w)) \<noteq> None \<longrightarrow> alive (trace (script file w)) = 0)
   \<and> (outcome (script file w) = Blocked \<longleftrightarrow> alive (trace (script file w)) = 1)"
proof -
  have n: "executable_copy_1 file \<noteq> executable_copy_2 file"
    using copy_2_not_copy_1 [of "file"] by simp
  show ?thesis
    using script_shapes [of "file" w]
    by (elim disjE exE conjE) (simp_all add: counts alive_def n)
qed

theorem one_copy_one_launch_witness:
  "outcome (script script_file world_built) = Exit_ok
   \<and> exit_status (outcome (script script_file world_built)) = Some 0
   \<and> copy_attempts (trace (script script_file world_built)) = 1
   \<and> launches (trace (script script_file world_built)) = 1
   \<and> CopyFile (executable_original script_file) (executable_copy_1 script_file)
        \<in> set (trace (script script_file world_built))
   \<and> alive (trace (script script_file world_built)) = 0"
proof -
  have o: "outcome (script script_file world_built) = Exit_ok"
    by (simp add: run_built)
  have c: "CopyFile (executable_original script_file) (executable_copy_1 script_file)
             \<in> set (trace (script script_file world_built))"
    by (simp add: run_built paths_at_script_file)
  from o one_copy_one_launch [of script_file world_built]
  have "copy_attempts (trace (script script_file world_built)) = 1
        \<and> launches (trace (script script_file world_built)) = 1
        \<and> alive (trace (script script_file world_built)) = 0"
    by simp
  with o c show ?thesis by simp
qed

text \<open>
  The claim that every execution performs one copy and one launch fails before the first
  build: the copy raises and nothing is launched.
\<close>

theorem one_copy_one_launch_counterexample:
  "\<not> (copy_attempts (trace (script script_file world_unbuilt)) = 1
       \<and> launches (trace (script script_file world_unbuilt)) = 1)"
  by (simp add: run_unbuilt launches_def)

section \<open>The rotation of the copy slots\<close>










end
